theory Spec2Isabelle
  imports Main "HOL-Library.Word"
begin

unbundle bit_operations_syntax

section \<open>Data model of the RPC client (src/rpc/client.go)\<close>

text \<open>
  Go's \<open>uint64\<close> is a 64-bit word: addition and subtraction wrap around.  Byte slices
  are lists of 8-bit words, Go strings are lists of characters (bytes).
\<close>

type_synonym u64 = "64 word"
type_synonym byte = "8 word"
type_synonym bytes = "byte list"

text \<open>The constants of client.go.\<close>

definition packetLimit :: nat where "packetLimit = 65000"
definition ticketBound :: u64 where "ticketBound = 4194304"
definition callQueueSize :: nat where "callQueueSize = 1024"

text \<open>\<open>edge.Error\<close> (package edge): the error term a server sends back.\<close>

record edge_Error =
  Method :: string
  Message :: string

definition edge_Error_Error :: "edge_Error \<Rightarrow> string" where
  "edge_Error_Error err = Message err"

text \<open>
  Go error values.  The four package-level errors of client.go are constructors of their
  own (Go compares them by identity); \<open>Errorf\<close> is a \<open>fmt.Errorf\<close> value carrying
  its formatted message; \<open>RPCError\<close> and \<open>CancelledError\<close> are the two error structs
  built by \<open>waitResponse\<close>; \<open>ExternalError\<close> is an error returned by a collaborator
  outside client.go, known only through its message.
\<close>

datatype error =
    errEmptyBNSresult
  | errSendTransactionFailed
  | errClientClosed
  | errPortOpenTimeout
  | Errorf string
  | RPCError edge_Error
  | CancelledError string
  | ExternalError string

text \<open>
  Modelled from the spec: the \<open>Error()\<close> methods of \<open>RPCError\<close> and
  \<open>CancelledError\<close> are declared outside src.  The spec's error kind
  \<open>RPC(method, message)\<close> carries the server's message, and the server's 4-byte
  \<open>time\<close> answer is what \<open>PortOpen\<close> measures, so \<open>RPCError.Error()\<close> is the
  message of the wrapped \<open>edge.Error\<close>; the text of a cancelled call is a parameter
  \<open>cancelledText\<close> of the host name.
\<close>

definition RPCError_Error :: "edge_Error \<Rightarrow> string" where
  "RPCError_Error e = edge_Error_Error e"

fun error_Error :: "(string \<Rightarrow> string) \<Rightarrow> error \<Rightarrow> string" where
  "error_Error cancelledText errEmptyBNSresult =
     ''couldn'' @ [CHR 0x27] @ ''t resolve name (null)''"
| "error_Error cancelledText errSendTransactionFailed = ''server returned false''"
| "error_Error cancelledText errClientClosed = ''rpc client was closed''"
| "error_Error cancelledText errPortOpenTimeout = ''portopen timeout''"
| "error_Error cancelledText (Errorf msg) = msg"
| "error_Error cancelledText (RPCError e) = RPCError_Error e"
| "error_Error cancelledText (CancelledError h) = cancelledText h"
| "error_Error cancelledText (ExternalError msg) = msg"

text \<open>The typed values a parse callback hands back (Go's \<open>interface{}\<close> results).\<close>

record BlockHeader =
  bh_Number :: u64
  bh_Hash :: bytes
  bh_Parent :: bytes
  bh_ValidateSig :: bool

datatype ticket_err = NoTicketErr | ErrTicketTooLow | ErrTicketTooOld | OtherTicketErr

record DeviceTicket =
  ServerID :: bytes
  BlockNumber :: u64
  BlockHash :: bytes
  FleetAddr :: bytes
  TotalConnections :: u64
  TotalBytes :: u64
  LocalAddr :: bytes
  DeviceSig :: bytes
  Err :: ticket_err

record edge_PortOpen =
  RequestID :: u64
  Ref :: string
  Protocol :: int
  PortNumber :: int
  DeviceID :: bytes
  Ok :: bool

record MerkleTree =
  RootHash :: bytes
  Modulo :: u64
  RawTree :: bytes

text \<open>\<open>edge.AccountValue\<close> and \<open>edge.AccountRoots\<close> with their methods (package edge).\<close>

record AccountValue =
  accountTree :: MerkleTree

record edge_AccountRoots =
  AccountRoots :: "bytes list"
  rawStorageRoot :: bytes
  storageRoot :: bytes





datatype rvalue =
    VUint64 u64
  | VSeq "u64 list"
  | VHeader BlockHeader
  | VTicket DeviceTicket
  | VPortOpen edge_PortOpen
  | VAccountValue AccountValue
  | VAccountRoots edge_AccountRoots
  | VString string
  | VOther

text \<open>
  What arrives on a call's response channel: the channel is closed, or it carries an
  \<open>edge.Error\<close>, or a parsed value.
\<close>

datatype reply = RClosed | RErr edge_Error | RVal rvalue

datatype arg = AUint64 u64 | ABytes bytes | AString string

datatype level = LDebug | LInfo | LWarn | LError

record Call =
  call_id :: u64
  call_method :: string
  call_data :: bytes
  call_response :: bool

text \<open>
  The client.  \<open>'w\<close> is the BlockQuick window and \<open>'n\<close> the state of the secure channel
  together with the server behind it; both live outside src.  \<open>totalBytes\<close>,
  \<open>totalConnections\<close> and \<open>counter\<close> are the fields of \<open>client.s\<close> that client.go
  reads and writes; \<open>db_lvbn\<close> and \<open>db_lvbh\<close> are the two keys of the local store;
  \<open>globalRequestID\<close> is the process-wide counter; \<open>metrics\<close> counts the calls of
  \<open>UpdateRPCTimer\<close>; \<open>logs\<close> records every log call with its level and format.
\<close>

record ('w, 'n) Client =
  host :: string
  Verbose :: bool
  isClosed :: bool
  cm :: "Call list"
  bq :: "'w option"
  enableMetrics :: bool
  metrics :: nat
  totalBytes :: u64
  totalConnections :: u64
  counter :: u64
  globalRequestID :: u64
  db_lvbn :: "u64 option"
  db_lvbh :: "bytes option"
  net :: 'n
  logs :: "(level \<times> string) list"

text \<open>
  The collaborators of the call path that are outside src, as parameters: the message
  encoders of package edge, the write of an encoded call to the channel, the arrival of
  the response to a request id, and the closing of the channel.
\<close>

record 'n transport =
  NewMessage :: "u64 \<Rightarrow> string \<Rightarrow> arg list \<Rightarrow> error + bytes"
  NewResponseMessage :: "u64 \<Rightarrow> string \<Rightarrow> string \<Rightarrow> arg list \<Rightarrow> error + bytes"
  sendCall :: "'n \<Rightarrow> bytes \<Rightarrow> 'n"
  awaitResponse :: "'n \<Rightarrow> u64 \<Rightarrow> reply \<times> 'n"
  closeChannel :: "'n \<Rightarrow> 'n"
  cancelledText :: "string \<Rightarrow> string"

section \<open>The call path\<close>

definition logf :: "level \<Rightarrow> string \<Rightarrow> ('w, 'n) Client \<Rightarrow> ('w, 'n) Client" where
  "logf l msg c = c\<lparr>logs := logs c @ [(l, msg)]\<rparr>"

text \<open>
  Modelled from the spec: the call manager (\<open>NewCallManager\<close>, \<open>Insert\<close>,
  \<open>RemoveCallByID\<close>, \<open>RemoveCalls\<close>) is outside src.  It is a bounded FIFO of
  \<open>callQueueSize\<close> in-flight calls; \<open>insert\<close> fails with \<open>BackpressureFull\<close> when the
  queue is at capacity, and an accepted call is written to the channel through
  \<open>SendCallPtr\<close>; \<open>remove_by_id\<close> is idempotent; \<open>cancel_all\<close> empties the queue.
\<close>

definition cm_Insert ::
  "'n transport \<Rightarrow> Call \<Rightarrow> ('w, 'n) Client \<Rightarrow> error option \<times> ('w, 'n) Client" where
  "cm_Insert T call c =
     (if callQueueSize \<le> length (cm c) then (Some (ExternalError ''BackpressureFull''), c)
      else (None, c\<lparr>cm := cm c @ [call], net := sendCall T (net c) (call_data call)\<rparr>))"

definition cm_RemoveCallByID :: "u64 \<Rightarrow> ('w, 'n) Client \<Rightarrow> ('w, 'n) Client" where
  "cm_RemoveCallByID i c = c\<lparr>cm := filter (\<lambda>k. call_id k \<noteq> i) (cm c)\<rparr>"

definition cm_RemoveCalls :: "('w, 'n) Client \<Rightarrow> ('w, 'n) Client" where
  "cm_RemoveCalls c = c\<lparr>cm := []\<rparr>"

definition insertCall ::
  "'n transport \<Rightarrow> Call \<Rightarrow> ('w, 'n) Client \<Rightarrow> error option \<times> ('w, 'n) Client" where
  "insertCall T call c =
     (if isClosed c then (Some errClientClosed, c) else cm_Insert T call c)"

definition getRequestID :: "('w, 'n) Client \<Rightarrow> u64 \<times> ('w, 'n) Client" where
  "getRequestID c = (globalRequestID c + 1, c\<lparr>globalRequestID := globalRequestID c + 1\<rparr>)"

definition CastContext ::
  "'n transport \<Rightarrow> string \<Rightarrow> arg list \<Rightarrow> ('w, 'n) Client \<Rightarrow> (error + Call) \<times> ('w, 'n) Client" where
  "CastContext T method args c =
     (case getRequestID c of (reqID, c1) \<Rightarrow>
        (case NewMessage T reqID method args of
           Inl e \<Rightarrow> (Inl e, c1)
         | Inr buf \<Rightarrow>
             (let call = \<lparr>call_id = reqID, call_method = method, call_data = buf,
                          call_response = True\<rparr>
              in case insertCall T call c1 of
                   (Some e, c2) \<Rightarrow> (Inl e, c2)
                 | (None, c2) \<Rightarrow> (Inr call, c2))))"

definition RespondContext ::
  "'n transport \<Rightarrow> u64 \<Rightarrow> string \<Rightarrow> string \<Rightarrow> arg list \<Rightarrow> ('w, 'n) Client
     \<Rightarrow> (error + Call) \<times> ('w, 'n) Client" where
  "RespondContext T requestID responseType method args c =
     (case NewResponseMessage T requestID responseType method args of
        Inl e \<Rightarrow> (Inl e, c)
      | Inr buf \<Rightarrow>
          (let call = \<lparr>call_id = requestID, call_method = method, call_data = buf,
                       call_response = False\<rparr>
           in case insertCall T call c of
                (Some e, c2) \<Rightarrow> (Inl e, c2)
              | (None, c2) \<Rightarrow> (Inr call, c2)))"

definition waitResponse ::
  "'n transport \<Rightarrow> Call \<Rightarrow> ('w, 'n) Client \<Rightarrow> (error + rvalue) \<times> ('w, 'n) Client" where
  "waitResponse T call c =
     (case awaitResponse T (net c) (call_id call) of (resp, n') \<Rightarrow>
        (let c1 = cm_RemoveCallByID (call_id call) (c\<lparr>net := n'\<rparr>)
         in case resp of
              RClosed \<Rightarrow> (Inl (CancelledError (host c)), c1)
            | RErr rpcError \<Rightarrow> (Inl (RPCError rpcError), c1)
            | RVal v \<Rightarrow> (Inr v, c1)))"

fun isCancelled :: "error + rvalue \<Rightarrow> bool" where
  "isCancelled (Inl (CancelledError h)) = True"
| "isCancelled r = False"

definition CallContext ::
  "'n transport \<Rightarrow> string \<Rightarrow> arg list \<Rightarrow> ('w, 'n) Client \<Rightarrow> (error + rvalue) \<times> ('w, 'n) Client" where
  "CallContext T method args c =
     (case CastContext T method args c of
        (Inl e, c1) \<Rightarrow> (Inl e, c1)
      | (Inr resCall, c1) \<Rightarrow>
          (case waitResponse T resCall c1 of (res, c2) \<Rightarrow>
             if isCancelled res then (res, c2)
             else (res, logf LDebug ''Got response: %s [%v]''
                          (if enableMetrics c2 then c2\<lparr>metrics := Suc (metrics c2)\<rparr> else c2))))"

text \<open>
  \<open>Close\<close>: the first call marks the client closed, cancels the queued calls and closes
  the channel; a second call does nothing.  (The ticker, the \<open>OnClose\<close> hook and the
  port pool are outside the state modelled here.)
\<close>

definition Close :: "'n transport \<Rightarrow> ('w, 'n) Client \<Rightarrow> ('w, 'n) Client" where
  "Close T c =
     (if isClosed c then c
      else (cm_RemoveCalls (c\<lparr>isClosed := True\<rparr>))\<lparr>net := closeChannel T (net c)\<rparr>)"

section \<open>PortOpen\<close>

definition PortOpen ::
  "'n transport \<Rightarrow> bytes \<Rightarrow> string \<Rightarrow> string \<Rightarrow> ('w, 'n) Client
     \<Rightarrow> (error + edge_PortOpen option) \<times> ('w, 'n) Client" where
  "PortOpen T deviceID port mode c =
     (case CallContext T ''portopen'' [ABytes deviceID, AString port, AString mode] c of
        (Inl err, c1) \<Rightarrow>
          (if length (error_Error (cancelledText T) err) = 4 then (Inl errPortOpenTimeout, c1)
           else (Inl err, c1))
      | (Inr (VPortOpen portOpen), c1) \<Rightarrow> (Inr (Some portOpen), c1)
      | (Inr _, c1) \<Rightarrow> (Inr None, c1))"

section \<open>The last valid block\<close>

text \<open>
  The BlockQuick window (package blockquick) is outside src: its constructor, \<open>AddBlock\<close>
  and \<open>Last\<close> are parameters, as is the built-in anchor that is used when the store
  holds none.
\<close>

record 'w blockquick =
  bq_New :: "BlockHeader list \<Rightarrow> nat \<Rightarrow> error + 'w"
  bq_AddBlock :: "'w \<Rightarrow> BlockHeader \<Rightarrow> error + 'w"
  bq_Last :: "'w \<Rightarrow> u64 \<times> bytes"
  defaultAnchor :: "u64 \<times> bytes"
  zeroHeader :: BlockHeader

text \<open>
  Modelled from the spec: \<open>restoreLastValid\<close>, \<open>LastValid\<close> and \<open>storeLastValid\<close>
  are outside src.  The store has the two keys \<open>last_valid_block_number\<close> and
  \<open>last_valid_block_hash\<close>; \<open>restore_last_valid()\<close> returns them, with a safe default
  anchor if absent; \<open>store_last_valid()\<close> persists the new \<open>Last()\<close>; the last valid
  block of a client is the \<open>Last()\<close> of its window, and the restored anchor while it has
  no window.
\<close>

definition restoreLastValid :: "'w blockquick \<Rightarrow> ('w, 'n) Client \<Rightarrow> u64 \<times> bytes" where
  "restoreLastValid B c =
     (case db_lvbn c of
        None \<Rightarrow> defaultAnchor B
      | Some n \<Rightarrow> (case db_lvbh c of None \<Rightarrow> defaultAnchor B | Some h \<Rightarrow> (n, h)))"

definition LastValid :: "'w blockquick \<Rightarrow> ('w, 'n) Client \<Rightarrow> u64 \<times> bytes" where
  "LastValid B c = (case bq c of None \<Rightarrow> restoreLastValid B c | Some w \<Rightarrow> bq_Last B w)"

definition storeLastValid :: "'w blockquick \<Rightarrow> ('w, 'n) Client \<Rightarrow> ('w, 'n) Client" where
  "storeLastValid B c =
     (case LastValid B c of (lvbn, lvbh) \<Rightarrow> c\<lparr>db_lvbn := Some lvbn, db_lvbh := Some lvbh\<rparr>)"

section \<open>Verified account reads\<close>

text \<open>
  A Go call either returns or panics (a nil pointer is dereferenced, a slice bound is out
  of range).
\<close>

datatype 'a outcome = Returns 'a | Panics



definition orLastValid :: "'w blockquick \<Rightarrow> u64 \<Rightarrow> ('w, 'n) Client \<Rightarrow> u64" where
  "orLastValid B blockNumber c =
     (if blockNumber \<le> 0 then fst (LastValid B c) else blockNumber)"







section \<open>Name resolution\<close>

text \<open>
  \<open>binary.BigEndian.Uint16\<close> of a two-byte slice, and the conversion of bytes to a
  string.  A slice expression \<open>raw[:n]\<close> panics when \<open>n\<close> exceeds the capacity of
  \<open>raw\<close>; a value is taken here with its capacity equal to its length.
\<close>

definition Uint16 :: "bytes \<Rightarrow> 16 word" where
  "Uint16 b = (ucast (b ! 1) :: 16 word) OR push_bit 8 (ucast (b ! 0) :: 16 word)"

definition bytes_string :: "bytes \<Rightarrow> string" where
  "bytes_string b = map (\<lambda>x. char_of (unat x)) b"

definition reverseName :: "bytes \<Rightarrow> string outcome" where
  "reverseName raw =
     (if length raw < 2 then Panics
      else (let sz = Uint16 (drop (length raw - 2) raw)
            in if sz mod 2 = 0
               then (let sz = sz div 2
                     in if length raw < unat sz then Panics
                        else Returns (bytes_string (take (unat sz) raw)))
               else if length raw < 30 then Panics
                    else Returns (bytes_string (take 30 raw))))"






section \<open>Tickets\<close>

text \<open>
  The parts of the secure channel, the configuration and \<open>edge.DeviceTicket\<close> that the
  ticket path uses and that are outside src, as parameters: the server id and the client
  key of the channel (each with the error the getter may return), the fleet and client
  addresses of the configuration, the local address, and the validation, signing and
  signature check of a ticket, and \<open>util.DecodeForce\<close>.
\<close>

record ticketing =
  GetServerID :: "bytes \<times> error option"
  GetClientPrivateKey :: "error option"
  cfg_FleetAddr :: bytes
  cfg_ClientAddr :: bytes
  s_LocalAddr :: bytes
  ValidateValues :: "DeviceTicket \<Rightarrow> error option"
  Sign :: "DeviceTicket \<Rightarrow> error + DeviceTicket"
  ValidateDeviceSig :: "DeviceTicket \<Rightarrow> bytes \<Rightarrow> bool"
  DecodeForce :: "bytes \<Rightarrow> bytes"

text \<open>
  Modelled from the spec: \<open>UpdateCounter\<close> of the secure channel is outside src;
  \<open>update_counter(n)\<close> advances \<open>counter\<close> to \<open>n\<close>.
\<close>

definition UpdateCounter :: "u64 \<Rightarrow> ('w, 'n) Client \<Rightarrow> ('w, 'n) Client" where
  "UpdateCounter n c = c\<lparr>counter := n\<rparr>"

definition newTicket ::
  "'w blockquick \<Rightarrow> ticketing \<Rightarrow> ('w, 'n) Client \<Rightarrow> (error + DeviceTicket) \<times> ('w, 'n) Client" where
  "newTicket B K c =
     (case GetServerID K of
        (serverID, Some err) \<Rightarrow> (Inl err, c)
      | (serverID, None) \<Rightarrow>
          (let c1 = UpdateCounter (totalBytes c) c;
               lv = LastValid B c1;
               c2 = logf LDebug ''New ticket: %d'' c1;
               ticket = \<lparr>ServerID = serverID, BlockNumber = fst lv, BlockHash = snd lv,
                         FleetAddr = cfg_FleetAddr K,
                         TotalConnections = totalConnections c2,
                         TotalBytes = totalBytes c2,
                         LocalAddr = s_LocalAddr K, DeviceSig = [], Err = NoTicketErr\<rparr>
           in case ValidateValues K ticket of
                Some err \<Rightarrow> (Inl err, c2)
              | None \<Rightarrow>
                  (case GetClientPrivateKey K of
                     Some err \<Rightarrow> (Inl err, c2)
                   | None \<Rightarrow>
                       (case Sign K ticket of
                          Inl err \<Rightarrow> (Inl err, c2)
                        | Inr ticket \<Rightarrow>
                            if \<not> ValidateDeviceSig K ticket (cfg_ClientAddr K)
                            then (Inl (Errorf ''ticket not verifiable''), c2)
                            else (Inr ticket, c2)))))"

text \<open>
  What \<open>submitTicket\<close> does to the ticket of a \<open>TicketTooLow\<close> answer before it checks
  the signature the second time: the server id and the fleet address are filled in, and
  the local address is decoded by force when the signature does not validate as it is.
\<close>

definition lastTicket_prepared :: "ticketing \<Rightarrow> DeviceTicket \<Rightarrow> DeviceTicket" where
  "lastTicket_prepared K lastTicket =
     (let lastTicket = lastTicket\<lparr>ServerID := fst (GetServerID K), FleetAddr := cfg_FleetAddr K\<rparr>
      in if \<not> ValidateDeviceSig K lastTicket (cfg_ClientAddr K)
         then lastTicket\<lparr>LocalAddr := DecodeForce K (LocalAddr lastTicket)\<rparr>
         else lastTicket)"

text \<open>
  \<open>SubmitNewTicket\<close> and \<open>submitTicket\<close> call each other for as long as the server
  answers \<open>TicketTooLow\<close> with a ticket that validates; the first argument bounds the
  number of tickets built, and \<open>None\<close> is a run that has not returned within it.
\<close>

fun SubmitNewTicket ::
    "nat \<Rightarrow> 'n transport \<Rightarrow> 'w blockquick \<Rightarrow> ticketing \<Rightarrow> ('w, 'n) Client
       \<Rightarrow> (error option \<times> ('w, 'n) Client) option"
  and submitTicket ::
    "nat \<Rightarrow> 'n transport \<Rightarrow> 'w blockquick \<Rightarrow> ticketing \<Rightarrow> DeviceTicket \<Rightarrow> ('w, 'n) Client
       \<Rightarrow> (error option \<times> ('w, 'n) Client) option" where
  "SubmitNewTicket 0 T B K c = None"
| "SubmitNewTicket (Suc n) T B K c =
     (if bq c = None then Some (None, c)
      else (case newTicket B K c of
              (Inl err, c1) \<Rightarrow> Some (Some err, c1)
            | (Inr ticket, c1) \<Rightarrow> submitTicket n T B K ticket c1))"
| "submitTicket n T B K ticket c =
     (case CallContext T ''ticket''
             [AUint64 (BlockNumber ticket), ABytes (FleetAddr ticket),
              AUint64 (TotalConnections ticket), AUint64 (TotalBytes ticket),
              ABytes (LocalAddr ticket), ABytes (DeviceSig ticket)] c of
        (Inl err, c1) \<Rightarrow>
          Some (Some (Errorf (''failed to submit ticket: '' @ error_Error (cancelledText T) err)),
                c1)
      | (Inr (VTicket lastTicket), c1) \<Rightarrow>
          (if Err lastTicket = ErrTicketTooLow
           then (let lastTicket = lastTicket_prepared K lastTicket
                 in if ValidateDeviceSig K lastTicket (cfg_ClientAddr K)
                    then (case SubmitNewTicket n T B K
                                 (c1\<lparr>totalBytes := TotalBytes lastTicket + 1024,
                                     totalConnections := TotalConnections lastTicket + 1\<rparr>) of
                            None \<Rightarrow> None
                          | Some (Some err, c2) \<Rightarrow>
                              Some (Some (Errorf (''failed to re-submit ticket: ''
                                                   @ error_Error (cancelledText T) err)), c2)
                          | Some (None, c2) \<Rightarrow> Some (None, c2))
                    else Some (None, logf LWarn ''received fake ticket.. last_ticket=%v'' c1))
           else if Err lastTicket = ErrTicketTooOld
                then Some (None, logf LInfo ''received too old ticket'' c1)
                else Some (None, c1))
      | (Inr _, c1) \<Rightarrow> Some (None, c1))"

definition CheckTicket ::
  "nat \<Rightarrow> 'n transport \<Rightarrow> 'w blockquick \<Rightarrow> ticketing \<Rightarrow> ('w, 'n) Client
     \<Rightarrow> (error option \<times> ('w, 'n) Client) option" where
  "CheckTicket n T B K c =
     (let checked = (totalBytes c > counter c + ticketBound)
      in if checked then SubmitNewTicket n T B K c else Some (None, c))"

definition greet ::
  "nat \<Rightarrow> 'n transport \<Rightarrow> 'w blockquick \<Rightarrow> ticketing \<Rightarrow> ('w, 'n) Client
     \<Rightarrow> (error option \<times> ('w, 'n) Client) option" where
  "greet n T B K c =
     (case CastContext T ''hello'' [AUint64 1000] c of
        (Inl err, c1) \<Rightarrow> Some (Some err, c1)
      | (Inr call, c1) \<Rightarrow> SubmitNewTicket n T B K c1)"

section \<open>Validation of the network\<close>

text \<open>
  Modelled from the spec: the constants \<open>windowSize\<close> and \<open>confirmationSize\<close> are
  declared outside src; the window has W = 100 headers and C = 6 confirmations.
\<close>

definition windowSize :: nat where "windowSize = 100"
definition confirmationSize :: nat where "confirmationSize = 6"

definition GetBlockPeak ::
  "'n transport \<Rightarrow> ('w, 'n) Client \<Rightarrow> (error + u64) \<times> ('w, 'n) Client" where
  "GetBlockPeak T c =
     (case CallContext T ''getblockpeak'' [] c of
        (Inl err, c1) \<Rightarrow> (Inl err, c1)
      | (Inr (VUint64 blockPeak), c1) \<Rightarrow> (Inr blockPeak, c1)
      | (Inr _, c1) \<Rightarrow> (Inr 0, c1))"

definition GetBlockHeaderUnsafe ::
  "'n transport \<Rightarrow> 'w blockquick \<Rightarrow> u64 \<Rightarrow> ('w, 'n) Client
     \<Rightarrow> (error + BlockHeader) \<times> ('w, 'n) Client" where
  "GetBlockHeaderUnsafe T B blockNum c =
     (case CallContext T ''getblockheader2'' [AUint64 blockNum] c of
        (Inl err, c1) \<Rightarrow> (Inl err, c1)
      | (Inr (VHeader blockHeader), c1) \<Rightarrow> (Inr blockHeader, c1)
      | (Inr _, c1) \<Rightarrow> (Inr (zeroHeader B), c1))"

text \<open>
  \<open>GetBlockHeadersUnsafe2\<close> starts one fetch per block number and waits for all of
  them; the fetches are taken here in the order of the numbers.  A fetch that fails is
  not counted; a header is stored under its block number.
\<close>

fun fetchHeaders ::
  "'n transport \<Rightarrow> 'w blockquick \<Rightarrow> u64 list \<Rightarrow> nat \<Rightarrow> (u64 \<rightharpoonup> BlockHeader) \<Rightarrow> ('w, 'n) Client
     \<Rightarrow> (nat \<times> (u64 \<rightharpoonup> BlockHeader)) \<times> ('w, 'n) Client" where
  "fetchHeaders T B [] headersCount responses c = ((headersCount, responses), c)"
| "fetchHeaders T B (bn # rest) headersCount responses c =
     (case GetBlockHeaderUnsafe T B bn c of
        (Inl err, c1) \<Rightarrow> fetchHeaders T B rest headersCount responses c1
      | (Inr header, c1) \<Rightarrow>
          fetchHeaders T B rest (headersCount + 1) (responses(bn \<mapsto> header)) c1)"

definition GetBlockHeadersUnsafe2 ::
  "'n transport \<Rightarrow> 'w blockquick \<Rightarrow> u64 list \<Rightarrow> ('w, 'n) Client
     \<Rightarrow> (error + BlockHeader list) \<times> ('w, 'n) Client" where
  "GetBlockHeadersUnsafe2 T B blockNumbers c =
     (case fetchHeaders T B blockNumbers 0 Map.empty c of
        ((headersCount, responses), c1) \<Rightarrow>
          if headersCount \<noteq> length blockNumbers
          then (Inl (Errorf ''failed fetching all blocks''), c1)
          else (Inr (map (\<lambda>bn. case responses bn of Some bh \<Rightarrow> bh | None \<Rightarrow> zeroHeader B)
                       blockNumbers), c1))"

text \<open>
  The loop \<open>for i := blockNumMin; i <= blockNumMax; i++\<close> over \<open>uint64\<close>: it does not
  end when \<open>blockNumMax\<close> is the largest \<open>uint64\<close>.
\<close>

partial_function (option) blockNumbers_loop :: "u64 \<Rightarrow> u64 \<Rightarrow> u64 list \<Rightarrow> u64 list option" where
  "blockNumbers_loop i blockNumMax blockNumbers =
     (if i \<le> blockNumMax then blockNumbers_loop (i + 1) blockNumMax (blockNumbers @ [i])
      else Some blockNumbers)"

definition GetBlockHeadersUnsafe ::
  "'n transport \<Rightarrow> 'w blockquick \<Rightarrow> u64 \<Rightarrow> u64 \<Rightarrow> ('w, 'n) Client
     \<Rightarrow> ((error + BlockHeader list) \<times> ('w, 'n) Client) option" where
  "GetBlockHeadersUnsafe T B blockNumMin blockNumMax c =
     (if blockNumMin > blockNumMax
      then Some (Inl (Errorf ''GetBlockHeadersUnsafe(): blockNumMin needs to be <= max''), c)
      else (case blockNumbers_loop blockNumMin blockNumMax [] of
              None \<Rightarrow> None
            | Some blockNumbers \<Rightarrow> Some (GetBlockHeadersUnsafe2 T B blockNumbers c)))"

definition GetBlockquick ::
  "'n transport \<Rightarrow> 'w blockquick \<Rightarrow> u64 \<Rightarrow> u64 \<Rightarrow> ('w, 'n) Client
     \<Rightarrow> (error + BlockHeader list) \<times> ('w, 'n) Client" where
  "GetBlockquick T B lastValid ws c =
     (case CallContext T ''getblockquick2'' [AUint64 lastValid, AUint64 ws] c of
        (Inl err, c1) \<Rightarrow> (Inl err, c1)
      | (Inr (VSeq sequence), c1) \<Rightarrow> GetBlockHeadersUnsafe2 T B sequence c1
      | (Inr _, c1) \<Rightarrow> (Inr [], c1))"

text \<open>
  The loop \<open>for i := windowSize - 2; i >= 0; i--\<close> that checks the chain of the
  fetched headers; the second argument is \<open>i + 1\<close>.
\<close>

fun chain_loop :: "BlockHeader list \<Rightarrow> nat \<Rightarrow> error option" where
  "chain_loop blockHeaders 0 = None"
| "chain_loop blockHeaders (Suc i) =
     (if bh_Hash (blockHeaders ! i) \<noteq> bh_Parent (blockHeaders ! (i + 1))
      then Some (Errorf ''recevied blocks parent is not his parent: %+v %+v'')
      else if \<not> bh_ValidateSig (blockHeaders ! i)
           then Some (Errorf ''recevied blocks signature is not valid: %v'')
           else chain_loop blockHeaders i)"

text \<open>The loop over the fetched blocks, with its \<open>break\<close>.\<close>

fun addBlocks :: "'w blockquick \<Rightarrow> 'w \<Rightarrow> BlockHeader list \<Rightarrow> u64 \<Rightarrow> error + 'w" where
  "addBlocks B win [] blockNumMax = Inr win"
| "addBlocks B win (block # rest) blockNumMax =
     (if bh_Number block > blockNumMax then Inr win
      else (case bq_AddBlock B win block of
              Inl err \<Rightarrow> Inl err
            | Inr win' \<Rightarrow> addBlocks B win' rest blockNumMax))"

text \<open>
  The text of the error for a reference block that does not match is the one text that
  the caller inspects; its formatted values are \<open>refText\<close>.  The other errors and the
  log records keep their format.
\<close>

definition refMismatch :: string where
  "refMismatch = ''sent reference block does not match''"

definition validateNetwork ::
  "'n transport \<Rightarrow> 'w blockquick \<Rightarrow> (u64 \<Rightarrow> bytes \<Rightarrow> bytes \<Rightarrow> string) \<Rightarrow> ('w, 'n) Client
     \<Rightarrow> (error option \<times> ('w, 'n) Client) option" where
  "validateNetwork T B refText c =
     (let lvbn = fst (restoreLastValid B c);
          lvbh = snd (restoreLastValid B c);
          blockNumMin = lvbn - of_nat windowSize + 1
      in case GetBlockHeadersUnsafe T B blockNumMin lvbn c of
           None \<Rightarrow> None
         | Some (Inl err, c1) \<Rightarrow>
             Some (Some err, logf LError ''Cannot fetch blocks %v-%v error: %v'' c1)
         | Some (Inr blockHeaders, c1) \<Rightarrow>
             if length blockHeaders \<noteq> windowSize
             then Some (Some (Errorf
                          ''validateNetwork(): len(blockHeaders) != windowSize (%v, %v)''),
                        logf LError
                          ''ValidateNetwork(): len(blockHeaders) != windowSize (%v, %v)'' c1)
             else (let hash = bh_Hash (blockHeaders ! (windowSize - 1))
                   in if hash \<noteq> lvbh
                      then Some (Some (Errorf (refMismatch @ '' '' @ refText lvbn lvbh hash)),
                                 (if Verbose c1
                                  then logf LError
                                    ''DEBUG: Reference block does not match -- resetting lvbn.'' c1
                                  else c1)\<lparr>db_lvbn := None\<rparr>)
                      else (case chain_loop blockHeaders (windowSize - 1) of
                              Some err \<Rightarrow> Some (Some err, c1)
                            | None \<Rightarrow>
                                (case GetBlockPeak T c1 of
                                   (Inl err, c2) \<Rightarrow> Some (Some err, c2)
                                 | (Inr peak, c2) \<Rightarrow>
       (let blockNumMax = peak - of_nat confirmationSize + 1
        in case GetBlockquick T B lvbn (of_nat (windowSize + confirmationSize + 1)) c2 of
             (Inl err, c3) \<Rightarrow> Some (Some err, c3)
           | (Inr blocks, c3) \<Rightarrow>
               (case bq_New B blockHeaders windowSize of
                  Inl err \<Rightarrow> Some (Some err, c3)
                | Inr win \<Rightarrow>
                    (case addBlocks B win blocks blockNumMax of
                       Inl err \<Rightarrow> Some (Some err, c3)
                     | Inr win \<Rightarrow>
                         (let newlvbn = fst (bq_Last B win)
                          in if newlvbn = lvbn \<and> peak - of_nat windowSize > lvbn
                             then Some (Some (Errorf (''couldn'' @ [CHR 0x27]
                                    @ ''t validate any new blocks %v < %v'')), c3)
                             else Some (None, storeLastValid B (c3\<lparr>bq := Some win\<rparr>))))))))))"

text \<open>\<open>strings.Contains\<close>.\<close>

fun Contains :: "string \<Rightarrow> string \<Rightarrow> bool" where
  "Contains [] substr = (substr = [])"
| "Contains (x # s) substr = (take (length substr) (x # s) = substr \<or> Contains s substr)"

text \<open>
  \<open>initialize\<close>: what follows the validation of the network is \<open>initialize_connect\<close>
  (the \<open>onConnect\<close> hook is outside the state modelled here).
\<close>

definition initialize_connect ::
  "nat \<Rightarrow> 'n transport \<Rightarrow> 'w blockquick \<Rightarrow> ticketing \<Rightarrow> ('w, 'n) Client
     \<Rightarrow> (error option \<times> ('w, 'n) Client) option" where
  "initialize_connect n T B K c =
     (case GetServerID K of
        (serverID, Some err) \<Rightarrow>
          Some (Some (Errorf (''failed to get server id: '' @ error_Error (cancelledText T) err)),
                c)
      | (serverID, None) \<Rightarrow>
          (case greet n T B K c of
             None \<Rightarrow> None
           | Some (Some err, c1) \<Rightarrow>
               Some (Some (Errorf (''failed to submitTicket to server: ''
                                    @ error_Error (cancelledText T) err)), c1)
           | Some (None, c1) \<Rightarrow> Some (None, c1)))"

definition initialize ::
  "nat \<Rightarrow> 'n transport \<Rightarrow> 'w blockquick \<Rightarrow> ticketing \<Rightarrow> (u64 \<Rightarrow> bytes \<Rightarrow> bytes \<Rightarrow> string)
     \<Rightarrow> ('w, 'n) Client \<Rightarrow> (error option \<times> ('w, 'n) Client) option" where
  "initialize n T B K refText c =
     (case validateNetwork T B refText c of
        None \<Rightarrow> None
      | Some (err, c1) \<Rightarrow>
          (case (case err of
                   None \<Rightarrow> Some (err, c1)
                 | Some e \<Rightarrow>
                     if Contains (error_Error (cancelledText T) e) refMismatch
                     then validateNetwork T B refText c1
                     else Some (err, c1)) of
             None \<Rightarrow> None
           | Some (Some e, c2) \<Rightarrow> Some (Some e, c2)
           | Some (None, c2) \<Rightarrow> initialize_connect n T B K c2))"

section \<open>Sequences of calls\<close>

text \<open>
  The operations by which a caller submits to a client: a call, a cast, a response to a
  request of the server, and \<open>Close\<close>; \<open>submit\<close> gives the error returned (if any)
  and the client after the operation; \<open>encodes\<close> holds when the encoder of package
  edge accepts the message, so that the call reaches \<open>insertCall\<close>.
\<close>

datatype op =
    OpCall string "arg list"
  | OpCast string "arg list"
  | OpRespond u64 string string "arg list"
  | OpClose

fun submit :: "'n transport \<Rightarrow> op \<Rightarrow> ('w, 'n) Client \<Rightarrow> error option \<times> ('w, 'n) Client" where
  "submit T (OpCall method args) c =
     (case CallContext T method args c of
        (Inl err, c1) \<Rightarrow> (Some err, c1) | (Inr res, c1) \<Rightarrow> (None, c1))"
| "submit T (OpCast method args) c =
     (case CastContext T method args c of
        (Inl err, c1) \<Rightarrow> (Some err, c1) | (Inr call, c1) \<Rightarrow> (None, c1))"
| "submit T (OpRespond requestID responseType method args) c =
     (case RespondContext T requestID responseType method args c of
        (Inl err, c1) \<Rightarrow> (Some err, c1) | (Inr call, c1) \<Rightarrow> (None, c1))"
| "submit T OpClose c = (None, Close T c)"

fun submits :: "'n transport \<Rightarrow> op list \<Rightarrow> ('w, 'n) Client \<Rightarrow> ('w, 'n) Client" where
  "submits T [] c = c"
| "submits T (x # xs) c = submits T xs (snd (submit T x c))"

fun encodes :: "'n transport \<Rightarrow> op \<Rightarrow> ('w, 'n) Client \<Rightarrow> bool" where
  "encodes T (OpCall method args) c =
     (case NewMessage T (globalRequestID c + 1) method args of Inl e \<Rightarrow> False | Inr b \<Rightarrow> True)"
| "encodes T (OpCast method args) c =
     (case NewMessage T (globalRequestID c + 1) method args of Inl e \<Rightarrow> False | Inr b \<Rightarrow> True)"
| "encodes T (OpRespond requestID responseType method args) c =
     (case NewResponseMessage T requestID responseType method args of
        Inl e \<Rightarrow> False | Inr b \<Rightarrow> True)"
| "encodes T OpClose c = True"

section \<open>Properties named by the specification\<close>

text \<open>
  The fields of a client that no call path bookkeeping touches: two clients are the same
  in them when they differ at most in the queue of calls, the request counter, the
  channel, the timer count and the log.
\<close>

definition sameClient :: "('w, 'n) Client \<Rightarrow> ('w, 'n) Client \<Rightarrow> bool" where
  "sameClient c c' \<longleftrightarrow>
     host c' = host c \<and> Verbose c' = Verbose c \<and> isClosed c' = isClosed c \<and> bq c' = bq c
     \<and> enableMetrics c' = enableMetrics c \<and> totalBytes c' = totalBytes c
     \<and> totalConnections c' = totalConnections c \<and> counter c' = counter c
     \<and> db_lvbn c' = db_lvbn c \<and> db_lvbh c' = db_lvbh c"

text \<open>
  The length precondition of \<open>ResolveReverseBNS\<close> on the value it reads: at least the
  two bytes of the length tag, and at least as many bytes as the slice bound computed
  from the tag (half the tag when it is even, 30 when it is odd).
\<close>

definition reverseName_pre :: "bytes \<Rightarrow> bool" where
  "reverseName_pre raw \<longleftrightarrow>
     2 \<le> length raw
     \<and> (if Uint16 (drop (length raw - 2) raw) mod 2 = 0
        then unat (Uint16 (drop (length raw - 2) raw) div 2) \<le> length raw
        else 30 \<le> length raw)"



section \<open>A scripted server for concrete runs\<close>

text \<open>
  A transport whose state is the script of replies still to come and the log of the
  encoded calls written so far.  The encoders write the method name; \<open>awaitResponse\<close>
  takes the next reply of the script, and finds the channel closed when the script is
  exhausted.
\<close>

definition scripted :: "(reply list \<times> bytes list) transport" where
  "scripted =
     \<lparr>NewMessage = (\<lambda>i m a. Inr (map (\<lambda>ch. of_char ch) m)),
      NewResponseMessage = (\<lambda>i k m a. Inr (map (\<lambda>ch. of_char ch) m)),
      sendCall = (\<lambda>n b. (fst n, snd n @ [b])),
      awaitResponse = (\<lambda>n i. case fst n of [] \<Rightarrow> (RClosed, n) | r # rs \<Rightarrow> (r, (rs, snd n))),
      closeChannel = (\<lambda>n. n),
      cancelledText = (\<lambda>h. ''cancelled '' @ h)\<rparr>"

definition client0 :: "reply list \<Rightarrow> (BlockHeader list, reply list \<times> bytes list) Client" where
  "client0 rs =
     \<lparr>host = ''edge'', Verbose = False, isClosed = False, cm = [], bq = None, enableMetrics = False,
      metrics = 0, totalBytes = 0, totalConnections = 0, counter = 0, globalRequestID = 0,
      db_lvbn = None, db_lvbh = None, net = (rs, []), logs = []\<rparr>"

text \<open>
  A window that keeps the headers it was built from and slides by one on every block
  that chains to its last header with a valid signature; a chain whose proof trees hold
  the value read in \<open>RawTree\<close>; the two replies of a verified read.
\<close>

definition window0 :: "(BlockHeader list) blockquick" where
  "window0 =
     \<lparr>bq_New = (\<lambda>hs n. Inr hs),
      bq_AddBlock = (\<lambda>w h. if bh_Parent h = bh_Hash (last w) \<and> bh_ValidateSig h
                            then Inr (tl w @ [h]) else Inl (ExternalError ''block rejected'')),
      bq_Last = (\<lambda>w. (bh_Number (last w), bh_Hash (last w))),
      defaultAnchor = (3, [3]),
      zeroHeader = \<lparr>bh_Number = 0, bh_Hash = [], bh_Parent = [], bh_ValidateSig = False\<rparr>\<rparr>"





text \<open>
  A ticketing setup in which a ticket validates when it carries the signature \<open>[7]\<close>
  and the local address \<open>[3]\<close>, and \<open>DecodeForce\<close> turns \<open>[203]\<close> into \<open>[3]\<close>;
  a client with a window; what a run leaves: the error, the log of the calls written,
  and the two counters.
\<close>

definition ticketing0 :: ticketing where
  "ticketing0 =
     \<lparr>GetServerID = ([9], None), GetClientPrivateKey = None,
      cfg_FleetAddr = [1], cfg_ClientAddr = [2], s_LocalAddr = [3],
      ValidateValues = (\<lambda>t. None),
      Sign = (\<lambda>t. Inr (t\<lparr>DeviceSig := [7]\<rparr>)),
      ValidateDeviceSig = (\<lambda>t a. DeviceSig t = [7] \<and> LocalAddr t = [3] \<and> a = [2]),
      DecodeForce = (\<lambda>b. if b = [203] then [3] else b)\<rparr>"

definition lastTicketOf :: "ticket_err \<Rightarrow> u64 \<Rightarrow> u64 \<Rightarrow> bytes \<Rightarrow> bytes \<Rightarrow> reply" where
  "lastTicketOf e tb tc la sig =
     RVal (VTicket \<lparr>ServerID = [], BlockNumber = 3, BlockHash = [3], FleetAddr = [],
                    TotalConnections = tc, TotalBytes = tb, LocalAddr = la, DeviceSig = sig,
                    Err = e\<rparr>)"

definition client1 :: "reply list \<Rightarrow> u64 \<Rightarrow> (BlockHeader list, reply list \<times> bytes list) Client" where
  "client1 rs tb =
     (client0 rs)\<lparr>bq := Some [\<lparr>bh_Number = 3, bh_Hash = [3], bh_Parent = [2],
                               bh_ValidateSig = True\<rparr>],
                  totalBytes := tb\<rparr>"

definition ticket0 :: DeviceTicket where
  "ticket0 = \<lparr>ServerID = [9], BlockNumber = 3, BlockHash = [3], FleetAddr = [1],
              TotalConnections = 0, TotalBytes = 100, LocalAddr = [3], DeviceSig = [7],
              Err = NoTicketErr\<rparr>"

definition sent :: "(error option \<times> ('w, reply list \<times> bytes list) Client) option
                      \<Rightarrow> (error option \<times> bytes list \<times> u64 \<times> u64) option" where
  "sent r = map_option (\<lambda>x. (fst x, snd (net (snd x)), totalBytes (snd x),
                               totalConnections (snd x))) r"

(*THMS-BEGIN*)

section \<open>The call path: basic facts\<close>

lemma CallContext_open_reply:
  assumes "\<not> isClosed c" and "length (cm c) < callQueueSize"
    and "NewMessage T (globalRequestID c + 1) method args = Inr buf"
    and "awaitResponse T (sendCall T (net c) buf) (globalRequestID c + 1) = (RErr e, n')"
  shows "fst (CallContext T method args c) = Inl (RPCError e)"
  using assms
  by (simp add: CallContext_def CastContext_def getRequestID_def insertCall_def cm_Insert_def
      waitResponse_def Let_def)

section \<open>PortOpen: the timeout of the server\<close>

text \<open>
  Claim C8.  When the \<open>portopen\<close> call of an open client is written to the channel and
  the server answers with the error whose message is the four bytes \<open>time\<close>,
  \<open>PortOpen\<close> returns no result (the left injection carries no \<open>edge.PortOpen\<close>) and the
  error \<open>errPortOpenTimeout\<close>, a value different from every \<open>RPCError\<close>.
\<close>

theorem PortOpen_time_is_timeout:
  assumes "\<not> isClosed c" and "length (cm c) < callQueueSize"
    and "NewMessage T (globalRequestID c + 1) ''portopen''
           [ABytes deviceID, AString port, AString mode] = Inr buf"
    and "awaitResponse T (sendCall T (net c) buf) (globalRequestID c + 1) = (RErr e, n')"
    and "Message e = ''time''"
  shows "fst (PortOpen T deviceID port mode c) = Inl errPortOpenTimeout
         \<and> errPortOpenTimeout \<noteq> RPCError e"
proof -
  have "fst (CallContext T ''portopen'' [ABytes deviceID, AString port, AString mode] c)
          = Inl (RPCError e)"
    using assms(1-4) by (rule CallContext_open_reply)
  then obtain c1 where
    "CallContext T ''portopen'' [ABytes deviceID, AString port, AString mode] c
       = (Inl (RPCError e), c1)"
    by (cases "CallContext T ''portopen'' [ABytes deviceID, AString port, AString mode] c") simp
  then show ?thesis
    using assms(5) by (simp add: PortOpen_def RPCError_Error_def edge_Error_Error_def)
qed

theorem PortOpen_time_is_timeout_witness:
  "fst (PortOpen scripted [1] ''80'' ''rw''
          (client0 [RErr \<lparr>Method = ''portopen'', Message = ''time''\<rparr>]))
     = Inl errPortOpenTimeout"
  using PortOpen_time_is_timeout [of "client0 [RErr \<lparr>Method = ''portopen'', Message = ''time''\<rparr>]"
      scripted "[1]" "''80''" "''rw''" "map of_char ''portopen''"
      "\<lparr>Method = ''portopen'', Message = ''time''\<rparr>" "([], [map of_char ''portopen''])"]
  by (simp add: scripted_def client0_def callQueueSize_def)

text \<open>
  Claim C9.  Whatever error the \<open>portopen\<close> call fails with, \<open>PortOpen\<close> looks only at
  the length of its message: a message of exactly four bytes gives
  \<open>errPortOpenTimeout\<close>, whatever the four bytes are, and an error whose message has any
  other length is returned as it is.  The client state is the one the call left.
\<close>

theorem PortOpen_four_byte_errors:
  assumes "fst (CallContext T ''portopen'' [ABytes deviceID, AString port, AString mode] c)
             = Inl err"
  shows "(length (error_Error (cancelledText T) err) = 4 \<longrightarrow>
            fst (PortOpen T deviceID port mode c) = Inl errPortOpenTimeout)
       \<and> (length (error_Error (cancelledText T) err) \<noteq> 4 \<longrightarrow>
            fst (PortOpen T deviceID port mode c) = Inl err)
       \<and> snd (PortOpen T deviceID port mode c)
           = snd (CallContext T ''portopen'' [ABytes deviceID, AString port, AString mode] c)"
  using assms
  by (cases "CallContext T ''portopen'' [ABytes deviceID, AString port, AString mode] c")
     (simp add: PortOpen_def)

theorem PortOpen_four_byte_errors_witness:
  "fst (PortOpen scripted [1] ''80'' ''rw''
          (client0 [RErr \<lparr>Method = ''portopen'', Message = ''nope''\<rparr>]))
     = Inl errPortOpenTimeout
   \<and> fst (PortOpen scripted [1] ''80'' ''rw''
          (client0 [RErr \<lparr>Method = ''portopen'', Message = ''not found''\<rparr>]))
     = Inl (RPCError \<lparr>Method = ''portopen'', Message = ''not found''\<rparr>)"
  using PortOpen_four_byte_errors [of scripted "[1]" "''80''" "''rw''"
      "client0 [RErr \<lparr>Method = ''portopen'', Message = ''nope''\<rparr>]"
      "RPCError \<lparr>Method = ''portopen'', Message = ''nope''\<rparr>"]
    PortOpen_four_byte_errors [of scripted "[1]" "''80''" "''rw''"
      "client0 [RErr \<lparr>Method = ''portopen'', Message = ''not found''\<rparr>]"
      "RPCError \<lparr>Method = ''portopen'', Message = ''not found''\<rparr>"]
  by (simp add: scripted_def client0_def callQueueSize_def CallContext_def CastContext_def
      getRequestID_def insertCall_def cm_Insert_def waitResponse_def Let_def
      cm_RemoveCallByID_def logf_def RPCError_Error_def edge_Error_Error_def)

lemmas call_defs = CallContext_def CastContext_def getRequestID_def insertCall_def cm_Insert_def
  waitResponse_def Let_def cm_RemoveCallByID_def logf_def



section \<open>What a call leaves untouched\<close>

lemma insertCall_same: "sameClient c (snd (insertCall T call c))"
  by (simp add: insertCall_def cm_Insert_def sameClient_def)




lemma sameClient_refl: "sameClient a a"
  by (simp add: sameClient_def)







lemma orLastValid_same: "sameClient c c' \<Longrightarrow> orLastValid B bn c' = orLastValid B bn c"
  by (simp add: orLastValid_def LastValid_def restoreLastValid_def sameClient_def
      split: option.splits)

lemma orLastValid_idem: "orLastValid B (orLastValid B bn c) c = orLastValid B bn c"
  by (simp add: orLastValid_def)

section \<open>Verified account reads: the proof check\<close>



section \<open>Reverse name resolution\<close>

lemma reverseName_Panics: "reverseName raw = Panics \<longleftrightarrow> \<not> reverseName_pre raw"
  by (auto simp: reverseName_def reverseName_pre_def Let_def)



section \<open>Name resolution: the destination array\<close>







section \<open>Tickets\<close>

lemmas ticket_defs = scripted_def client0_def client1_def window0_def ticketing0_def
  lastTicketOf_def ticket0_def callQueueSize_def call_defs newTicket_def UpdateCounter_def
  LastValid_def lastTicket_prepared_def sent_def

text \<open>
  Claim C5.  \<open>CheckTicket\<close> calls \<open>SubmitNewTicket\<close> exactly when \<open>TotalBytes\<close> is
  greater than \<open>Counter + ticketBound\<close> (the \<open>uint64\<close> sum, which is the sum of the
  numbers whenever that is below \<open>2 ^ 64\<close>); otherwise it returns no error and the
  client is unchanged.
\<close>

theorem CheckTicket_threshold:
  "(counter c + ticketBound < totalBytes c \<longrightarrow>
      CheckTicket n T B K c = SubmitNewTicket n T B K c)
   \<and> (\<not> counter c + ticketBound < totalBytes c \<longrightarrow> CheckTicket n T B K c = Some (None, c))
   \<and> (unat (counter c) + 4194304 < 2 ^ 64 \<longrightarrow>
        (counter c + ticketBound < totalBytes c
           \<longleftrightarrow> unat (counter c) + 4194304 < unat (totalBytes c)))"
proof -
  have "unat (counter c) + 4194304 < 2 ^ 64 \<Longrightarrow>
        unat (counter c + ticketBound) = unat (counter c) + 4194304"
    by (simp add: ticketBound_def unat_word_ariths)
  then show ?thesis
    by (auto simp: CheckTicket_def Let_def word_less_nat_alt)
qed

theorem CheckTicket_threshold_witness:
  "sent (CheckTicket (Suc (Suc 0)) scripted window0 ticketing0 (client1 [RVal VOther] 4194305))
     = Some (None, [map of_char ''ticket''], 4194305, 0)
   \<and> CheckTicket (Suc (Suc 0)) scripted window0 ticketing0 (client1 [RVal VOther] 4194304)
     = Some (None, client1 [RVal VOther] 4194304)"
proof -
  have big: "counter (client1 [RVal VOther] 4194305) + ticketBound
               < totalBytes (client1 [RVal VOther] 4194305)"
    by (simp add: client1_def client0_def ticketBound_def)
  have small: "\<not> counter (client1 [RVal VOther] 4194304) + ticketBound
               < totalBytes (client1 [RVal VOther] 4194304)"
    by (simp add: client1_def client0_def ticketBound_def)
  have run: "sent (SubmitNewTicket (Suc (Suc 0)) scripted window0 ticketing0
                     (client1 [RVal VOther] 4194305))
               = Some (None, [map of_char ''ticket''], 4194305, 0)"
    by (simp add: ticket_defs)
  show ?thesis
    using CheckTicket_threshold [of "client1 [RVal VOther] 4194305" "Suc (Suc 0)" scripted
        window0 ticketing0, THEN conjunct1, rule_format, OF big]
      CheckTicket_threshold [of "client1 [RVal VOther] 4194304" "Suc (Suc 0)" scripted
        window0 ticketing0, THEN conjunct2, THEN conjunct1, rule_format, OF small]
      run
    by simp
qed

text \<open>
  Claim C4, as amended.  When the answer to a ticket is a \<open>TicketTooLow\<close> whose
  ticket validates (as it is, or after the forced decoding of its local address),
  \<open>submitTicket\<close> sets the total-bytes counter to the returned \<open>TotalBytes + 1024\<close>
  and the total-connections counter to the returned \<open>TotalConnections + 1\<close> and calls
  \<open>SubmitNewTicket\<close> once, returning its result (an error wrapped as a failed
  re-submission); the answer to the ticket submitted by that call is handled in the same
  way.  When the ticket does not validate, a warning is logged and nothing else changes;
  a \<open>TicketTooOld\<close> answer is logged only.
\<close>

theorem submitTicket_answers:
  fixes c :: "('w, 'n) Client" and T ticket
  defines "c1 \<equiv> snd (CallContext T ''ticket''
             [AUint64 (BlockNumber ticket), ABytes (FleetAddr ticket),
              AUint64 (TotalConnections ticket), AUint64 (TotalBytes ticket),
              ABytes (LocalAddr ticket), ABytes (DeviceSig ticket)] c)"
  assumes a: "fst (CallContext T ''ticket''
             [AUint64 (BlockNumber ticket), ABytes (FleetAddr ticket),
              AUint64 (TotalConnections ticket), AUint64 (TotalBytes ticket),
              ABytes (LocalAddr ticket), ABytes (DeviceSig ticket)] c)
             = Inr (VTicket lastTicket)"
  shows "(Err lastTicket = ErrTicketTooLow
            \<and> ValidateDeviceSig K (lastTicket_prepared K lastTicket) (cfg_ClientAddr K) \<longrightarrow>
            submitTicket n T B K ticket c
              = (case SubmitNewTicket n T B K
                        (c1\<lparr>totalBytes := TotalBytes lastTicket + 1024,
                            totalConnections := TotalConnections lastTicket + 1\<rparr>) of
                   None \<Rightarrow> None
                 | Some (Some err, c2) \<Rightarrow>
                     Some (Some (Errorf (''failed to re-submit ticket: ''
                                          @ error_Error (cancelledText T) err)), c2)
                 | Some (None, c2) \<Rightarrow> Some (None, c2)))
       \<and> (Err lastTicket = ErrTicketTooLow
            \<and> \<not> ValidateDeviceSig K (lastTicket_prepared K lastTicket) (cfg_ClientAddr K) \<longrightarrow>
            submitTicket n T B K ticket c
              = Some (None, logf LWarn ''received fake ticket.. last_ticket=%v'' c1))
       \<and> (Err lastTicket = ErrTicketTooOld \<longrightarrow>
            submitTicket n T B K ticket c
              = Some (None, logf LInfo ''received too old ticket'' c1))"
proof -
  have tb: "TotalBytes (lastTicket_prepared K lastTicket) = TotalBytes lastTicket"
    and tc: "TotalConnections (lastTicket_prepared K lastTicket) = TotalConnections lastTicket"
    by (simp_all add: lastTicket_prepared_def Let_def)
  have "CallContext T ''ticket''
             [AUint64 (BlockNumber ticket), ABytes (FleetAddr ticket),
              AUint64 (TotalConnections ticket), AUint64 (TotalBytes ticket),
              ABytes (LocalAddr ticket), ABytes (DeviceSig ticket)] c
             = (Inr (VTicket lastTicket), c1)"
    using a by (simp add: c1_def prod_eq_iff)
  then show ?thesis
    by (simp add: Let_def tb tc)
qed

theorem submitTicket_answers_witness:
  "sent (submitTicket (Suc (Suc 0)) scripted window0 ticketing0 ticket0
           (client1 [lastTicketOf ErrTicketTooLow 5000 7 [203] [7], RVal VOther] 100))
     = Some (None, [map of_char ''ticket'', map of_char ''ticket''], 6024, 8)
   \<and> sent (submitTicket (Suc (Suc 0)) scripted window0 ticketing0 ticket0
           (client1 [lastTicketOf ErrTicketTooLow 5000 7 [3] [66], RVal VOther] 100))
     = Some (None, [map of_char ''ticket''], 100, 0)
   \<and> sent (submitTicket (Suc (Suc 0)) scripted window0 ticketing0 ticket0
           (client1 [lastTicketOf ErrTicketTooOld 5000 7 [3] [7], RVal VOther] 100))
     = Some (None, [map of_char ''ticket''], 100, 0)"
proof -
  let ?low = "\<lparr>ServerID = [], BlockNumber = 3, BlockHash = [3], FleetAddr = [],
               TotalConnections = 7, TotalBytes = 5000, LocalAddr = [203], DeviceSig = [7],
               Err = ErrTicketTooLow\<rparr>"
  let ?fake = "\<lparr>ServerID = [], BlockNumber = 3, BlockHash = [3], FleetAddr = [],
               TotalConnections = 7, TotalBytes = 5000, LocalAddr = [3], DeviceSig = [66],
               Err = ErrTicketTooLow\<rparr>"
  let ?old = "\<lparr>ServerID = [], BlockNumber = 3, BlockHash = [3], FleetAddr = [],
               TotalConnections = 7, TotalBytes = 5000, LocalAddr = [3], DeviceSig = [7],
               Err = ErrTicketTooOld\<rparr>"
  let ?c = "\<lambda>r. client1 [r, RVal VOther] 100"
  let ?call = "\<lambda>r. CallContext scripted ''ticket''
             [AUint64 (BlockNumber ticket0), ABytes (FleetAddr ticket0),
              AUint64 (TotalConnections ticket0), AUint64 (TotalBytes ticket0),
              ABytes (LocalAddr ticket0), ABytes (DeviceSig ticket0)] (?c r)"
  have h1: "fst (?call (lastTicketOf ErrTicketTooLow 5000 7 [203] [7])) = Inr (VTicket ?low)"
    by (simp add: ticket_defs)
  have h2: "fst (?call (lastTicketOf ErrTicketTooLow 5000 7 [3] [66])) = Inr (VTicket ?fake)"
    by (simp add: ticket_defs)
  have h3: "fst (?call (lastTicketOf ErrTicketTooOld 5000 7 [3] [7])) = Inr (VTicket ?old)"
    by (simp add: ticket_defs)
  have v1: "Err ?low = ErrTicketTooLow
            \<and> ValidateDeviceSig ticketing0 (lastTicket_prepared ticketing0 ?low)
                (cfg_ClientAddr ticketing0)"
    by (simp add: ticketing0_def lastTicket_prepared_def)
  have v2: "Err ?fake = ErrTicketTooLow
            \<and> \<not> ValidateDeviceSig ticketing0 (lastTicket_prepared ticketing0 ?fake)
                (cfg_ClientAddr ticketing0)"
    by (simp add: ticketing0_def lastTicket_prepared_def)
  have v3: "Err ?old = ErrTicketTooOld"
    by simp
  note r1 = submitTicket_answers [OF h1, where K = ticketing0 and B = window0
              and n = "Suc (Suc 0)", THEN conjunct1, rule_format, OF v1]
  note r2 = submitTicket_answers [OF h2, where K = ticketing0 and B = window0
              and n = "Suc (Suc 0)", THEN conjunct2, THEN conjunct1, rule_format, OF v2]
  note r3 = submitTicket_answers [OF h3, where K = ticketing0 and B = window0
              and n = "Suc (Suc 0)", THEN conjunct2, THEN conjunct2, rule_format, OF v3]
  show ?thesis
    unfolding r1 r2 r3 by (simp add: ticket_defs)
qed

text \<open>
  Claim C4 as stated has the ticket re-submitted exactly once.  Against a server that
  answers \<open>TicketTooLow\<close> with a valid ticket twice, one call of \<open>submitTicket\<close>
  writes three ticket calls: the ticket is re-submitted twice, and the counters end at
  the second answer's values plus 1024 and plus 1.
\<close>

theorem submitTicket_resubmits_twice:
  "sent (submitTicket (Suc (Suc (Suc 0))) scripted window0 ticketing0 ticket0
           (client1 [lastTicketOf ErrTicketTooLow 5000 7 [3] [7],
                     lastTicketOf ErrTicketTooLow 9000 8 [3] [7], RVal VOther] 100))
     = Some (None, [map of_char ''ticket'', map of_char ''ticket'', map of_char ''ticket''],
             10024, 9)"
  by (simp add: ticket_defs)

section \<open>A closed client\<close>

lemma closed_insertCall:
  "isClosed c \<Longrightarrow> insertCall T call c = (Some errClientClosed, c)"
  by (simp add: insertCall_def)

lemma closed_CastContext:
  "isClosed c \<Longrightarrow>
     CastContext T m a c
       = (Inl (case NewMessage T (globalRequestID c + 1) m a of
                 Inl e \<Rightarrow> e | Inr b \<Rightarrow> errClientClosed),
          c\<lparr>globalRequestID := globalRequestID c + 1\<rparr>)"
  by (simp add: CastContext_def getRequestID_def insertCall_def Let_def split: sum.splits)

lemma closed_RespondContext:
  "isClosed c \<Longrightarrow>
     RespondContext T i k m a c
       = (Inl (case NewResponseMessage T i k m a of Inl e \<Rightarrow> e | Inr b \<Rightarrow> errClientClosed), c)"
  by (simp add: RespondContext_def insertCall_def Let_def split: sum.splits)

lemma closed_CallContext:
  "isClosed c \<Longrightarrow>
     CallContext T m a c
       = (Inl (case NewMessage T (globalRequestID c + 1) m a of
                 Inl e \<Rightarrow> e | Inr b \<Rightarrow> errClientClosed),
          c\<lparr>globalRequestID := globalRequestID c + 1\<rparr>)"
  by (simp add: CallContext_def closed_CastContext)

lemma closed_submit:
  assumes "isClosed c"
  shows "isClosed (snd (submit T x c)) \<and> cm (snd (submit T x c)) = cm c
         \<and> net (snd (submit T x c)) = net c"
  using assms
  by (cases x) (simp_all add: closed_CallContext closed_CastContext closed_RespondContext Close_def)

lemma closed_submits:
  "isClosed c \<Longrightarrow>
     isClosed (submits T xs c) \<and> cm (submits T xs c) = cm c \<and> net (submits T xs c) = net c"
proof (induction xs arbitrary: c)
  case Nil
  then show ?case by simp
next
  case (Cons x xs)
  from closed_submit [OF Cons.prems, where T = T and x = x]
  have 1: "isClosed (snd (submit T x c))" and 2: "cm (snd (submit T x c)) = cm c"
    and 3: "net (snd (submit T x c)) = net c"
    by simp_all
  from Cons.IH [OF 1] 2 3 show ?case by simp
qed

lemma Close_isClosed: "isClosed (Close T c)"
  by (simp add: Close_def cm_RemoveCalls_def)

text \<open>
  Claim C6.  \<open>Close\<close> leaves the client closed, and it stays closed through every
  sequence of calls, casts, responses and further \<open>Close\<close>s.  In every state reached
  that way, a call, cast or response returns an error, the queue of the call manager and
  the channel are as \<open>Close\<close> left them, and the error is \<open>errClientClosed\<close> whenever
  the message was encoded, that is, whenever the call reached \<open>insertCall\<close>.
\<close>

theorem closed_client_rejects_calls:
  fixes c :: "('w, 'n) Client" and T ops
  defines "c' \<equiv> submits T ops (Close T c)"
  shows "isClosed (Close T c) \<and> isClosed c'
       \<and> cm c' = cm (Close T c) \<and> net c' = net (Close T c)
       \<and> (x \<noteq> OpClose \<longrightarrow>
            fst (submit T x c') \<noteq> None
            \<and> cm (snd (submit T x c')) = cm c' \<and> net (snd (submit T x c')) = net c')
       \<and> (x \<noteq> OpClose \<and> encodes T x c' \<longrightarrow> fst (submit T x c') = Some errClientClosed)"
proof -
  have cl: "isClosed c'" and rest: "cm c' = cm (Close T c)" "net c' = net (Close T c)"
    using closed_submits [where c = "Close T c" and T = T and xs = ops, OF Close_isClosed]
    by (simp_all add: c'_def)
  have "x \<noteq> OpClose \<Longrightarrow> fst (submit T x c') \<noteq> None"
    using cl
    by (cases x) (simp_all add: closed_CallContext closed_CastContext closed_RespondContext)
  moreover have "x \<noteq> OpClose \<Longrightarrow> encodes T x c' \<Longrightarrow> fst (submit T x c') = Some errClientClosed"
    using cl
    by (cases x)
       (auto simp: closed_CallContext closed_CastContext closed_RespondContext split: sum.splits)
  ultimately show ?thesis
    using cl rest closed_submit [OF cl, where T = T and x = x] Close_isClosed [of T c] by simp
qed

theorem closed_client_rejects_calls_witness:
  "fst (submit scripted (OpCall ''getblockpeak'' [])
          (submits scripted [OpCast ''hello'' [AUint64 1000], OpClose]
             (Close scripted (client0 [RVal (VUint64 5)]))))
     = Some errClientClosed
   \<and> net (snd (submit scripted (OpCall ''getblockpeak'' [])
          (submits scripted [OpCast ''hello'' [AUint64 1000], OpClose]
             (Close scripted (client0 [RVal (VUint64 5)])))))
     = ([RVal (VUint64 5)], [])"
  using closed_client_rejects_calls [where x = "OpCall ''getblockpeak'' []" and T = scripted
      and ops = "[OpCast ''hello'' [AUint64 1000], OpClose]"
      and c = "client0 [RVal (VUint64 5)]"]
  by (simp add: scripted_def client0_def Close_def cm_RemoveCalls_def)

end
